theory Spec2Isabelle
  imports Main "HOL-Library.AList"
begin

section \<open>The import-aware source merge engine (class TypescriptFile)\<close>

text \<open>
  The class \<open>TypescriptFile\<close> keeps, for one source file, the list of its import
  statements (\<open>this.imports\<close>) and the text of its other top-level statements
  (\<open>this.declarations\<close>). Its methods mutate these two fields; here every method takes
  the object's state and returns the new one. JavaScript strings are modelled as
  \<^typ>\<open>string\<close>, one \<^typ>\<open>char\<close> standing for one code unit.
\<close>

subsection \<open>Data\<close>

text \<open>
  \<open>ITypescriptImportModules\<close> is a JavaScript object used as a dictionary from strings to
  strings. It is an association list in insertion order, which is the order in which a
  JavaScript object enumerates such keys.
\<close>

type_synonym typescriptImportModules = "(string \<times> string) list"

record typescriptImport =
  packageName :: string
  modules :: typescriptImportModules

text \<open>
  The three fields of \<open>TypescriptFile\<close> are optional (\<open>imports?\<close>, \<open>declarations?\<close>,
  \<open>defaultDeclaration?\<close>): \<^const>\<open>None\<close> is the field before it has been assigned
  (for \<open>defaultDeclaration\<close>, of type \<open>string | null\<close>, \<open>Some None\<close> is \<open>null\<close>). The
  field \<open>imports\<close> is written \<open>imports'\<close>, the plain name being reserved in Isabelle.
\<close>

record typescriptFile =
  imports' :: "typescriptImport list option"
  declarations :: "string list option"
  defaultDeclaration :: "string option option"

text \<open>The reading \<open>this.imports || []\<close> and \<open>this.declarations || []\<close> of the two fields.\<close>

definition importList :: "typescriptFile \<Rightarrow> typescriptImport list" where
  "importList f = (case imports' f of None \<Rightarrow> [] | Some ts \<Rightarrow> ts)"

definition declarationList :: "typescriptFile \<Rightarrow> string list" where
  "declarationList f = (case declarations f of None \<Rightarrow> [] | Some ds \<Rightarrow> ds)"

subsection \<open>The binding map of one import statement\<close>

text \<open>
  Modelled from the spec: \<open>TypescriptImport.addModules\<close>, whose source is not among the
  files. The spec has the new bindings "merged key-by-key into its existing binding map
  (overwriting on key collision)". A key that is already present keeps its place and takes
  the new value, a new key goes to the end.
\<close>

definition addModules :: "typescriptImportModules \<Rightarrow> typescriptImportModules \<Rightarrow> typescriptImportModules" where
  "addModules new ms = fold (\<lambda>(k, v) acc. AList.update k v acc) new ms"

text \<open>
  Modelled from the spec: \<open>TypescriptImport.removeModules\<close>, whose source is not among the
  files. The spec has "each key present in the supplied bindings map [...] deleted from its
  binding map, regardless of the value supplied".
\<close>

definition removeModules :: "typescriptImportModules \<Rightarrow> typescriptImportModules \<Rightarrow> typescriptImportModules" where
  "removeModules old ms = fold (\<lambda>(k, v) acc. AList.delete k acc) old ms"

subsection \<open>addImports and removeImports\<close>

text \<open>
  The inner loop of \<open>addImports\<close>: it walks over all of \<open>this.imports\<close>, merges the
  bindings of \<open>importItem\<close> into every statement of the same package and reports in
  \<open>importToAddFound\<close> whether there was one. Statements and binding maps are values here:
  a merge changes the statement in the list and nothing else, as the spec has it (the
  document "exclusively owns its ImportStatements", with "no external aliasing").
\<close>

fun addToFound :: "typescriptImport \<Rightarrow> typescriptImport list \<Rightarrow> typescriptImport list \<times> bool" where
  "addToFound importItem [] = ([], False)"
| "addToFound importItem (t # ts) =
     (let (ts', importToAddFound) = addToFound importItem ts
      in if packageName importItem \<noteq> packageName t then (t # ts', importToAddFound)
         else (t\<lparr>modules := addModules (modules importItem) (modules t)\<rparr> # ts', True))"

definition addImport :: "typescriptImport list \<Rightarrow> typescriptImport \<Rightarrow> typescriptImport list" where
  "addImport ts importItem =
     (let (ts', importToAddFound) = addToFound importItem ts
      in if \<not> importToAddFound then ts' @ [importItem] else ts')"

definition addImports :: "typescriptImport list \<Rightarrow> typescriptFile \<Rightarrow> typescriptFile" where
  "addImports items f = f\<lparr>imports' := Some (foldl addImport (importList f) items)\<rparr>"

text \<open>The inner loop of \<open>removeImports\<close> and the method itself.\<close>

definition removeImport :: "typescriptImport list \<Rightarrow> typescriptImport \<Rightarrow> typescriptImport list" where
  "removeImport ts importItem =
     map (\<lambda>t. if packageName importItem \<noteq> packageName t then t
              else t\<lparr>modules := removeModules (modules importItem) (modules t)\<rparr>) ts"

definition removeImports :: "typescriptImport list \<Rightarrow> typescriptFile \<Rightarrow> typescriptFile" where
  "removeImports items f = f\<lparr>imports' := Some (foldl removeImport (importList f) items)\<rparr>"

text \<open>
  \<open>setImports\<close> builds a \<open>TypescriptImport\<close> from each \<open>ITypescriptImport\<close> (the same two
  fields), adds the first list and then removes the second.
\<close>

definition setImports :: "typescriptImport list \<Rightarrow> typescriptImport list \<Rightarrow> typescriptFile \<Rightarrow> typescriptFile" where
  "setImports importsToAdd importsToRemove f =
     removeImports (map (\<lambda>i. \<lparr>packageName = packageName i, modules = modules i\<rparr>) importsToRemove)
       (addImports (map (\<lambda>i. \<lparr>packageName = packageName i, modules = modules i\<rparr>) importsToAdd) f)"

subsection \<open>Parsing\<close>

text \<open>
  The syntax tree comes from the library function \<open>parse\<close> of typescript-estree. Of a
  top-level statement the class reads its kind and its \<open>range\<close>; of an import declaration
  its \<open>source.value\<close> and its \<open>specifiers\<close>; of a specifier its kind, \<open>local.name\<close> and,
  for a named one, \<open>imported.name\<close>.
\<close>

datatype importClause =
    ImportDefaultSpecifier (local: string)
  | ImportNamespaceSpecifier (local: string)
  | ImportSpecifier (local: string) (imported: string)

datatype statement =
    isImportDeclaration: ImportDeclaration (source: string) (specifiers: "importClause list") (nodeRange: "nat \<times> nat")
  | OtherStatement (nodeRange: "nat \<times> nat")

text \<open>
  The body of the loop over the specifiers: the pair \<open>(moduleName, importType)\<close> that the
  \<open>switch\<close> computes. The two constants \<open>TypescriptImport.defaultImport\<close> and
  \<open>TypescriptImport.globImport\<close> are declared in a file that is not among the sources;
  they are parameters here.
\<close>

fun specifierModule :: "string \<Rightarrow> string \<Rightarrow> importClause \<Rightarrow> string \<times> string" where
  "specifierModule defaultImport globImport (ImportDefaultSpecifier l) = (l, defaultImport)"
| "specifierModule defaultImport globImport (ImportNamespaceSpecifier l) = (globImport, l)"
| "specifierModule defaultImport globImport (ImportSpecifier l i) = (i, if l \<noteq> i then l else [])"

definition parseImportDeclaration :: "string \<Rightarrow> string \<Rightarrow> statement \<Rightarrow> typescriptFile \<Rightarrow> typescriptFile" where
  "parseImportDeclaration defaultImport globImport bodyItem f =
     (if length (specifiers bodyItem) = 0
      then addImports [\<lparr>packageName = source bodyItem, modules = [(defaultImport, defaultImport)]\<rparr>] f
      else foldl (\<lambda>f' specifier.
                    addImports [\<lparr>packageName = source bodyItem,
                                 modules = [specifierModule defaultImport globImport specifier]\<rparr>] f')
             f (specifiers bodyItem))"

text \<open>
  \<open>String.prototype.substr\<close> with a start that is not negative: a length below zero
  gives the empty string, and both ends are cut at the end of the string.
\<close>

definition substr :: "string \<Rightarrow> nat \<Rightarrow> int \<Rightarrow> string" where
  "substr s start len = take (nat len) (drop start s)"

text \<open>
  The text of a statement,
  \<open>content.substr(bodyItem.range[0], bodyItem.range[1] - bodyItem.range[0])\<close>, and the body
  of the loop of \<open>parseContent\<close> over the statements.
\<close>

definition bodyItemText :: "string \<Rightarrow> statement \<Rightarrow> string" where
  "bodyItemText content bodyItem =
     substr content (fst (nodeRange bodyItem))
       (int (snd (nodeRange bodyItem)) - int (fst (nodeRange bodyItem)))"

definition parseBodyItem :: "string \<Rightarrow> string \<Rightarrow> string \<Rightarrow> typescriptFile \<Rightarrow> statement \<Rightarrow> typescriptFile" where
  "parseBodyItem defaultImport globImport content f bodyItem =
     (case bodyItem of
        ImportDeclaration _ _ _ \<Rightarrow> parseImportDeclaration defaultImport globImport bodyItem f
      | OtherStatement _ \<Rightarrow>
          f\<lparr>declarations := Some (declarationList f @ [bodyItemText content bodyItem])\<rparr>)"

text \<open>
  What \<open>parse\<close> throws is read in two ways: \<open>error.lineNumber\<close> (absent, or a number)
  and \<open>JSON.stringify(error)\<close>.
\<close>

record thrown =
  lineNumber :: "int option"
  json :: string

text \<open>
  The two ways \<open>parseTypescriptContent\<close> ends with an exception: the \<open>Error\<close> it builds
  itself, and the \<open>TypeError\<close> of the runtime when \<open>trim\<close> is called on \<open>undefined\<close>.
\<close>

datatype jsError = Error (message: string) | TypeError

text \<open>\<open>content.split('\n')\<close>: the pieces between line feeds, at least one piece.\<close>

fun split :: "char \<Rightarrow> string \<Rightarrow> string list" where
  "split sep [] = [[]]"
| "split sep (c # cs) =
     (if c = sep then [] # split sep cs
      else (case split sep cs of [] \<Rightarrow> [[c]] | l # ls \<Rightarrow> (c # l) # ls))"

text \<open>Reading an array at a number: \<open>undefined\<close> (\<^const>\<open>None\<close>) outside the array.\<close>

definition at :: "'a list \<Rightarrow> int \<Rightarrow> 'a option" where
  "at xs i = (if 0 \<le> i \<and> i < int (length xs) then Some (xs ! nat i) else None)"

text \<open>
  \<open>String.prototype.trim\<close> on the code units a \<^typ>\<open>char\<close> can hold: tab, line feed,
  vertical tab, form feed, carriage return, space and no-break space.
\<close>

definition isWhiteSpace :: "char \<Rightarrow> bool" where
  "isWhiteSpace c \<longleftrightarrow>
     c \<in> set [CHR 0x09, CHR 0x0A, CHR 0x0B, CHR 0x0C, CHR 0x0D, CHR 0x20, CHR 0xA0]"

definition trim :: "string \<Rightarrow> string" where
  "trim s = rev (dropWhile isWhiteSpace (rev (dropWhile isWhiteSpace s)))"

text \<open>
  \<open>parseTypescriptContent\<close>. The library parser is the parameter \<open>parse\<close>
  (\<^const>\<open>Inl\<close> is what it throws), \<open>file\<close> is \<open>this.file\<close>. In the \<open>catch\<close> block
  \<open>contentError\<close> is the whole content, or, when \<open>error.lineNumber\<close> is truthy (present
  and not 0), the array element at \<open>lineNumber - 1\<close>, which is \<open>undefined\<close> outside the
  array; \<open>contentError.trim()\<close> then throws the \<open>TypeError\<close>. The message of the
  \<open>Error\<close> is the template string of the source.
\<close>

definition errorMessage :: "string \<Rightarrow> thrown \<Rightarrow> string \<Rightarrow> string" where
  "errorMessage file error contentError =
     ''An error occurred while parsing file content '' @ [CHR 0x22] @ file @ [CHR 0x22] @ '': ''
       @ json error @ '' => '' @ [CHR 0x22] @ trim contentError @ [CHR 0x22]"

definition parseTypescriptContent ::
  "string \<Rightarrow> (string \<Rightarrow> thrown + statement list) \<Rightarrow> string \<Rightarrow> jsError + statement list" where
  "parseTypescriptContent file parse content =
     (case parse content of
        Inr body \<Rightarrow> Inr body
      | Inl error \<Rightarrow>
          (let contentError =
                 (case lineNumber error of
                    None \<Rightarrow> Some content
                  | Some n \<Rightarrow> if n \<noteq> 0 then at (split CHR 0x0A content) (n - 1) else Some content)
           in case contentError of
                None \<Rightarrow> Inl TypeError
              | Some line \<Rightarrow> Inl (Error (errorMessage file error line))))"

text \<open>
  \<open>parseContent\<close>. It resets the three fields, passes the content through
  \<open>super.parseContent\<close> (class \<open>StdFile\<close>, not among the sources: the parameter
  \<open>stdParseContent\<close>), parses the result and walks over the statements. An exception
  leaves the object with the fields reset.
\<close>

definition parseContent ::
  "(string \<Rightarrow> string) \<Rightarrow> string \<Rightarrow> (string \<Rightarrow> thrown + statement list) \<Rightarrow> string \<Rightarrow> string
     \<Rightarrow> string \<Rightarrow> typescriptFile \<Rightarrow> (jsError + string) \<times> typescriptFile" where
  "parseContent stdParseContent file parse defaultImport globImport content f =
     (let f0 = f\<lparr>imports' := Some [], declarations := Some [], defaultDeclaration := Some None\<rparr>;
          content' = stdParseContent content
      in case parseTypescriptContent file parse content' of
           Inl e \<Rightarrow> (Inl e, f0)
         | Inr body \<Rightarrow> (Inr content', foldl (parseBodyItem defaultImport globImport content') f0 body))"

subsection \<open>Serialising\<close>

text \<open>\<open>/^\./.exec(name)\<close> is truthy exactly when the name starts with a dot.\<close>

definition isRelative :: "string \<Rightarrow> bool" where
  "isRelative name = (case name of [] \<Rightarrow> False | c # _ \<Rightarrow> c = CHR ''.'')"

text \<open>
  The comparator given to \<open>sort\<close>. \<open>String.prototype.localeCompare\<close> depends on the
  locale of the runtime; it is the parameter \<open>localeCompare\<close>.
\<close>

definition compareImports :: "(string \<Rightarrow> string \<Rightarrow> int) \<Rightarrow> typescriptImport \<Rightarrow> typescriptImport \<Rightarrow> int" where
  "compareImports localeCompare importA importB =
     (if isRelative (packageName importA) then 1
      else if isRelative (packageName importB) then - 1
      else localeCompare (packageName importA) (packageName importB))"

text \<open>
  \<open>Array.prototype.sort\<close> is a built-in of the runtime, and the comparator above is not a
  consistent one in the sense of ECMAScript: it answers 1 for two relative names whichever
  comes first. For such a comparator the language leaves the resulting order to the
  runtime. The model is the stable insertion sort: the elements are taken in arrival
  order, and each one is put in front of the first element already placed for which the
  comparator, called with the new element first, answers a negative number, or at the end
  when there is none. The sort of V8 (Node.js 11 and later) inserts with the same calls,
  looking for the place by bisection; for this comparator the order of the two arguments
  decides where a relative name goes.
\<close>

fun insertSorted :: "('a \<Rightarrow> 'a \<Rightarrow> int) \<Rightarrow> 'a \<Rightarrow> 'a list \<Rightarrow> 'a list" where
  "insertSorted comparefn x [] = [x]"
| "insertSorted comparefn x (y # ys) =
     (if comparefn x y < 0 then x # y # ys else y # insertSorted comparefn x ys)"

definition sort' :: "('a \<Rightarrow> 'a \<Rightarrow> int) \<Rightarrow> 'a list \<Rightarrow> 'a list" where
  "sort' comparefn xs = foldl (\<lambda>placed x. insertSorted comparefn x placed) [] xs"

text \<open>\<open>Array.prototype.join\<close> on strings.\<close>

fun join :: "string \<Rightarrow> string list \<Rightarrow> string" where
  "join sep [] = []"
| "join sep [x] = x"
| "join sep (x # y # ys) = x @ sep @ join sep (y # ys)"

text \<open>
  Modelled from the spec: \<open>TypescriptImport.toString\<close>, whose source is not among the
  files. The spec has the statement rebuilt "from the encoding rules of \<section>3 in reverse
  -- one rendering per binding-map entry, combined into a single specifier clause list
  where applicable", and "a statement whose binding map is empty renders to an empty
  string". An entry \<open>(DEFAULT, DEFAULT)\<close> stands for the import without specifiers, an entry
  \<open>(Foo, DEFAULT)\<close> for the default import \<open>Foo\<close>, \<open>(GLOB, Foo)\<close> for \<open>* as Foo\<close>, \<open>(Bar, "")\<close>
  for \<open>{ Bar }\<close> and \<open>(Bar, Baz)\<close> for \<open>{ Bar as Baz }\<close>; the line is written as in the
  spec's scenario, \<open>import React, { useState } from "react";\<close>.
\<close>

definition toString :: "string \<Rightarrow> string \<Rightarrow> typescriptImport \<Rightarrow> string" where
  "toString defaultImport globImport t =
     (let ms = modules t;
          unbraced = concat (map (\<lambda>(k, v). if v = defaultImport
                                             then (if k = defaultImport then [] else [k])
                                             else if k = globImport then [''* as '' @ v] else []) ms);
          named = map (\<lambda>(k, v). if v = [] then k else k @ '' as '' @ v)
                    (filter (\<lambda>(k, v). v \<noteq> defaultImport \<and> k \<noteq> globImport) ms);
          clauses = unbraced @ (if named = [] then [] else [''{ '' @ join '', '' named @ '' }'']);
          quoted = [CHR 0x22] @ packageName t @ [CHR 0x22]
      in if ms = [] then []
         else if clauses = [] then ''import '' @ quoted @ '';''
         else ''import '' @ join '', '' clauses @ '' from '' @ quoted @ '';'')"

text \<open>
  \<open>getContent\<close>. It sorts \<open>this.imports\<close> in place, so it returns the new state of the
  object with the text; \<open>eol\<close> is the constant \<open>EOL\<close> of the platform.
\<close>

definition importLines :: "string \<Rightarrow> string \<Rightarrow> typescriptImport list \<Rightarrow> string list" where
  "importLines defaultImport globImport ts =
     filter (\<lambda>line. length line \<noteq> 0) (map (toString defaultImport globImport) ts)"

definition getContent ::
  "(string \<Rightarrow> string \<Rightarrow> int) \<Rightarrow> string \<Rightarrow> string \<Rightarrow> string \<Rightarrow> typescriptFile \<Rightarrow> string \<times> typescriptFile" where
  "getContent localeCompare defaultImport globImport eol f =
     (case imports' f of
        None \<Rightarrow> (join eol ([] @ [[]] @ declarationList f), f)
      | Some ts \<Rightarrow>
          (let sortedImports = sort' (compareImports localeCompare) ts
           in (join eol (importLines defaultImport globImport sortedImports @ [[]] @ declarationList f),
               f\<lparr>imports' := Some sortedImports\<rparr>)))"

subsection \<open>Sequences of operations\<close>

text \<open>
  The operations that change the import statements of a document: the two methods, their
  combination \<open>setImports\<close>, the merge of one parsed import declaration, and a whole
  parse.
\<close>

datatype operation =
    AddImports "typescriptImport list"
  | RemoveImports "typescriptImport list"
  | SetImports "typescriptImport list" "typescriptImport list"
  | ParseImportDeclaration statement
  | ParseContent string

fun applyOperation ::
  "(string \<Rightarrow> string) \<Rightarrow> string \<Rightarrow> (string \<Rightarrow> thrown + statement list) \<Rightarrow> string \<Rightarrow> string
     \<Rightarrow> typescriptFile \<Rightarrow> operation \<Rightarrow> typescriptFile" where
  "applyOperation stdParseContent file parse defaultImport globImport f (AddImports items) =
     addImports items f"
| "applyOperation stdParseContent file parse defaultImport globImport f (RemoveImports items) =
     removeImports items f"
| "applyOperation stdParseContent file parse defaultImport globImport f (SetImports adds removes) =
     setImports adds removes f"
| "applyOperation stdParseContent file parse defaultImport globImport f (ParseImportDeclaration bodyItem) =
     parseImportDeclaration defaultImport globImport bodyItem f"
| "applyOperation stdParseContent file parse defaultImport globImport f (ParseContent content) =
     snd (parseContent stdParseContent file parse defaultImport globImport content f)"

text \<open>The object before any method has run.\<close>

definition newFile :: typescriptFile where
  "newFile = \<lparr>imports' = None, declarations = None, defaultDeclaration = None\<rparr>"

subsection \<open>Examples\<close>

text \<open>
  The document of the spec's first scenario, after parsing
  \<open>import React from "react"; import { useState } from "react"; const x = 1;\<close>.
\<close>

definition reactImport :: typescriptImport where
  "reactImport = \<lparr>packageName = ''react'', modules = [(''React'', ''default''), (''useState'', [])]\<rparr>"

definition exampleFile :: typescriptFile where
  "exampleFile = \<lparr>imports' = Some [reactImport], declarations = Some [''const x = 1;''],
                   defaultDeclaration = Some None\<rparr>"

text \<open>The same document after both bindings have been removed.\<close>

definition emptiedFile :: typescriptFile where
  "emptiedFile = \<lparr>imports' = Some [\<lparr>packageName = ''react'', modules = []\<rparr>],
                   declarations = Some [''const x = 1;''], defaultDeclaration = Some None\<rparr>"

text \<open>
  The packages of the spec's sort example, in arrival order: \<open>lodash\<close>, \<open>./utils\<close>,
  \<open>react\<close>, \<open>../shared\<close>.
\<close>

definition unsortedFile :: typescriptFile where
  "unsortedFile =
     \<lparr>imports' = Some [\<lparr>packageName = ''lodash'', modules = [(''map'', [])]\<rparr>,
                       \<lparr>packageName = ''./utils'', modules = [(''utils'', ''default'')]\<rparr>,
                       \<lparr>packageName = ''react'', modules = [(''React'', ''default'')]\<rparr>,
                       \<lparr>packageName = ''../shared'', modules = [(''*'', ''shared'')]\<rparr>],
      declarations = Some [], defaultDeclaration = Some None\<rparr>"

text \<open>
  A table in the place of the library parser for the two texts of the examples. For the
  first it has the statements. The second, \<open>const a = 1;\rconst = ;\<close>, is not a program:
  its second line, which follows a carriage return alone, has no name to declare, and the
  table has the syntax error of line 2 that the parser throws there (\<open>json\<close> stands for
  its serialized form). No example uses another text; the table has the empty program
  there.
\<close>

definition exampleParse :: "string \<Rightarrow> thrown + statement list" where
  "exampleParse content =
     (if content = ''import React from X;const x = 1;''
      then Inr [ImportDeclaration ''react'' [ImportDefaultSpecifier ''React''] (0, 20),
                OtherStatement (20, 32)]
      else if content = ''const a = 1;'' @ [CHR 0x0D] @ ''const = ;''
      then Inl \<lparr>lineNumber = Some 2,
                 json = ''{index:19,lineNumber:2,column:6,message:Identifier expected}''\<rparr>
      else Inr [])"


text \<open>
  A comparison to put in the place of \<open>localeCompare\<close> in examples: the lexicographic
  order of the code units.
\<close>

fun codeUnitCompare :: "string \<Rightarrow> string \<Rightarrow> int" where
  "codeUnitCompare [] [] = 0"
| "codeUnitCompare [] (b # bs) = - 1"
| "codeUnitCompare (a # as) [] = 1"
| "codeUnitCompare (a # as) (b # bs) =
     (if (of_char a :: nat) < of_char b then - 1
      else if (of_char b :: nat) < of_char a then 1
      else codeUnitCompare as bs)"

section \<open>Properties\<close>

subsection \<open>Reading the fields\<close>

lemma importList_Some [simp]: "importList (f\<lparr>imports' := Some ts\<rparr>) = ts"
  by (simp add: importList_def)

lemma importList_other [simp]:
  "importList (f\<lparr>declarations := ds\<rparr>) = importList f"
  "importList (f\<lparr>defaultDeclaration := dd\<rparr>) = importList f"
  by (simp_all add: importList_def)

lemma declarationList_simps [simp]:
  "declarationList (f\<lparr>declarations := Some ds\<rparr>) = ds"
  "declarationList (f\<lparr>imports' := ts\<rparr>) = declarationList f"
  "declarationList (f\<lparr>defaultDeclaration := dd\<rparr>) = declarationList f"
  by (simp_all add: declarationList_def)

lemma foldl_invariant:
  "P s \<Longrightarrow> (\<And>s x. P s \<Longrightarrow> P (step s x)) \<Longrightarrow> P (foldl step s xs)"
  by (induction xs arbitrary: s) simp_all

subsection \<open>One statement per package\<close>

lemma addToFound_names: "map packageName (fst (addToFound item ts)) = map packageName ts"
  by (induction ts) (auto simp: Let_def split: prod.splits)

lemma addToFound_found: "snd (addToFound item ts) \<longleftrightarrow> packageName item \<in> packageName ` set ts"
  by (induction ts) (auto simp: Let_def split: prod.splits)

lemma addImport_names:
  "map packageName (addImport ts item) =
     (if packageName item \<in> packageName ` set ts then map packageName ts
      else map packageName ts @ [packageName item])"
  using addToFound_names [of item ts] addToFound_found [of item ts]
  by (auto simp: addImport_def split: prod.splits)

lemma foldl_addImport_distinct:
  "distinct (map packageName ts) \<Longrightarrow> distinct (map packageName (foldl addImport ts items))"
  by (induction items arbitrary: ts) (simp_all add: addImport_names)

lemma removeImport_names: "map packageName (removeImport ts item) = map packageName ts"
  by (simp add: removeImport_def comp_def)

lemma foldl_removeImport_names:
  "map packageName (foldl removeImport ts items) = map packageName ts"
  by (induction items arbitrary: ts) (simp_all add: removeImport_names)

lemma addImports_distinct:
  "distinct (map packageName (importList f))
     \<Longrightarrow> distinct (map packageName (importList (addImports items f)))"
  by (simp add: addImports_def foldl_addImport_distinct)

lemma removeImports_distinct:
  "distinct (map packageName (importList f))
     \<Longrightarrow> distinct (map packageName (importList (removeImports items f)))"
  by (simp add: removeImports_def foldl_removeImport_names)

lemma parseImportDeclaration_distinct:
  assumes "distinct (map packageName (importList f))"
  shows "distinct (map packageName (importList (parseImportDeclaration d g bodyItem f)))"
  unfolding parseImportDeclaration_def
  using assms
  by (auto intro!: addImports_distinct
        foldl_invariant [where P = "\<lambda>f. distinct (map packageName (importList f))"])

lemma parseBodyItem_distinct:
  "distinct (map packageName (importList f))
     \<Longrightarrow> distinct (map packageName (importList (parseBodyItem d g content f bodyItem)))"
  by (cases bodyItem) (simp_all add: parseBodyItem_def parseImportDeclaration_distinct)

lemma parseContent_distinct:
  "distinct (map packageName (importList (snd (parseContent sp file parse d g content f))))"
proof -
  let ?P = "\<lambda>f. distinct (map packageName (importList f))"
  let ?f0 = "f\<lparr>imports' := Some [], declarations := Some [], defaultDeclaration := Some None\<rparr>"
  have start: "?P ?f0" by simp
  have "?P (foldl (parseBodyItem d g (sp content)) ?f0 body)" for body
    using start by (rule foldl_invariant) (rule parseBodyItem_distinct)
  with start show ?thesis
    by (simp add: parseContent_def Let_def split: sum.splits)
qed

lemma applyOperation_distinct:
  "distinct (map packageName (importList f))
     \<Longrightarrow> distinct (map packageName (importList (applyOperation sp file parse d g f operation)))"
  by (cases operation)
    (simp_all add: addImports_distinct removeImports_distinct setImports_def
       parseImportDeclaration_distinct parseContent_distinct)

text \<open>
  Claim C1. Whatever sequence of \<open>addImports\<close>, \<open>removeImports\<close>, \<open>setImports\<close>, merges of
  parsed import declarations and whole parses runs on a document whose import statements
  have pairwise different package names, the package names are pairwise different after
  every prefix of the sequence: no package has two import statements at any point.
\<close>

theorem one_statement_per_package:
  assumes "distinct (map packageName (importList f))"
  shows "distinct (map packageName
           (importList (foldl (applyOperation sp file parse d g) f (take n operations))))"
  using assms by (rule foldl_invariant) (rule applyOperation_distinct)

theorem one_statement_per_package_witness:
  "distinct (map packageName (importList newFile)) \<and>
   map packageName (importList (foldl
      (applyOperation id ''a.ts''
         (\<lambda>c. Inr [ImportDeclaration ''react'' [ImportDefaultSpecifier ''React''] (0, 26),
                    ImportDeclaration ''react'' [ImportSpecifier ''useState'' ''useState''] (27, 60)])
         ''default'' ''*'')
      newFile
      (take 3 [ParseContent ''import React from X; import { useState } from X;'',
               AddImports [\<lparr>packageName = ''lodash'', modules = [(''map'', [])]\<rparr>,
                           \<lparr>packageName = ''lodash'', modules = [(''zip'', [])]\<rparr>],
               RemoveImports [\<lparr>packageName = ''react'', modules = [(''React'', [])]\<rparr>]])))
     = [''react'', ''lodash''] \<and>
   distinct (map packageName (importList (foldl
      (applyOperation id ''a.ts''
         (\<lambda>c. Inr [ImportDeclaration ''react'' [ImportDefaultSpecifier ''React''] (0, 26),
                    ImportDeclaration ''react'' [ImportSpecifier ''useState'' ''useState''] (27, 60)])
         ''default'' ''*'')
      newFile
      (take 3 [ParseContent ''import React from X; import { useState } from X;'',
               AddImports [\<lparr>packageName = ''lodash'', modules = [(''map'', [])]\<rparr>,
                           \<lparr>packageName = ''lodash'', modules = [(''zip'', [])]\<rparr>],
               RemoveImports [\<lparr>packageName = ''react'', modules = [(''React'', [])]\<rparr>]]))))"
proof -
  have start: "distinct (map packageName (importList newFile))"
    by (simp add: newFile_def importList_def)
  show ?thesis
    using start one_statement_per_package [OF start]
    by (simp add: newFile_def importList_def parseContent_def parseTypescriptContent_def
          parseBodyItem_def parseImportDeclaration_def addImports_def addImport_def
          removeImports_def removeImport_def Let_def)
qed

subsection \<open>Adding and removing bindings\<close>

lemma addToFound_fst:
  "fst (addToFound item ts) =
     map (\<lambda>t. if packageName item \<noteq> packageName t then t
              else t\<lparr>modules := addModules (modules item) (modules t)\<rparr>) ts"
  by (induction ts) (auto simp: Let_def split: prod.splits)

lemma addImport_eq:
  "addImport ts item =
     (if packageName item \<in> packageName ` set ts
      then map (\<lambda>t. if packageName item \<noteq> packageName t then t
                    else t\<lparr>modules := addModules (modules item) (modules t)\<rparr>) ts
      else ts @ [item])"
proof -
  have absent: "fst (addToFound item ts) = ts" if "packageName item \<notin> packageName ` set ts"
    using that unfolding addToFound_fst by (induction ts) auto
  show ?thesis
    using addToFound_fst [of item ts] addToFound_found [of item ts] absent
    by (auto simp: addImport_def split: prod.splits)
qed

lemma addModules_single: "addModules [(k, v)] ms = AList.update k v ms"
  by (simp add: addModules_def)

lemma map_of_addModules: "map_of (addModules new ms) = map_of ms ++ map_of (rev new)"
  unfolding addModules_def
proof (induction new arbitrary: ms)
  case Nil
  show ?case by simp
next
  case (Cons b new)
  obtain k v where b: "b = (k, v)" by (cases b)
  have "map_of (fold (\<lambda>(k, v). AList.update k v) new (AList.update k v ms))
          = map_of (AList.update k v ms) ++ map_of (rev new)"
    by (rule Cons.IH)
  also have "\<dots> = map_of ms ++ map_of (rev (b # new))"
    by (simp add: b AList.update_conv' fun_eq_iff map_add_def split: option.splits)
  finally show ?case by (simp add: b)
qed

lemma removeModules_filter:
  "removeModules old ms = filter (\<lambda>(k, v). k \<notin> fst ` set old) ms"
  unfolding removeModules_def
proof (induction old arbitrary: ms)
  case Nil
  show ?case by simp
next
  case (Cons b old)
  obtain k v where b: "b = (k, v)" by (cases b)
  have "fold (\<lambda>(k, v). AList.delete k) old (AList.delete k ms)
          = filter (\<lambda>(k, v). k \<notin> fst ` set old) (AList.delete k ms)"
    by (rule Cons.IH)
  also have "\<dots> = filter (\<lambda>(k', v). k' \<notin> fst ` set (b # old)) ms"
    by (auto simp: b AList.delete_eq intro!: filter_cong)
  finally show ?case by (simp add: b)
qed

lemma removeModules_absent:
  "fst ` set old \<inter> fst ` set ms = {} \<Longrightarrow> removeModules old ms = ms"
  unfolding removeModules_filter by (rule filter_True) force

lemma map_of_filter_keys:
  "map_of (filter (\<lambda>(k, v). Q k) ms) k = (if Q k then map_of ms k else None)"
  by (induction ms) auto

lemma map_of_removeModules:
  "map_of (removeModules old ms) k = (if k \<in> fst ` set old then None else map_of ms k)"
  unfolding removeModules_filter
  by (simp add: map_of_filter_keys [where Q = "\<lambda>k. k \<notin> fst ` set old"])

lemma addImports_single:
  "importList (addImports [item] f) = addImport (importList f) item"
  by (simp add: addImports_def)

lemma addImports_present:
  assumes "p \<in> packageName ` set (importList f)"
  shows "importList (addImports [\<lparr>packageName = p, modules = bs\<rparr>] f) =
           map (\<lambda>t. if packageName t = p then t\<lparr>modules := addModules bs (modules t)\<rparr> else t)
             (importList f)"
proof -
  have "(\<lambda>t. if p \<noteq> packageName t then t else t\<lparr>modules := addModules bs (modules t)\<rparr>)
          = (\<lambda>t. if packageName t = p then t\<lparr>modules := addModules bs (modules t)\<rparr> else t)"
    by (rule ext) auto
  with assms show ?thesis
    by (simp add: addImports_single addImport_eq)
qed

lemma addImports_absent:
  assumes "p \<notin> packageName ` set (importList f)"
  shows "importList (addImports [\<lparr>packageName = p, modules = bs\<rparr>] f) =
           importList f @ [\<lparr>packageName = p, modules = bs\<rparr>]"
  using assms by (simp add: addImports_single addImport_eq)

lemma addImports_overwrites:
  assumes "t \<in> set (importList f)" and "packageName t = p"
  shows "\<exists>t' \<in> set (importList (addImports [\<lparr>packageName = p, modules = [(k, v2)]\<rparr>] f)).
           packageName t' = p"
    and "\<forall>t' \<in> set (importList (addImports [\<lparr>packageName = p, modules = [(k, v2)]\<rparr>] f)).
           packageName t' = p \<longrightarrow> map_of (modules t') k = Some v2"
proof -
  define g where
    "g = (\<lambda>t::typescriptImport. if packageName t = p then t\<lparr>modules := addModules [(k, v2)] (modules t)\<rparr> else t)"
  from assms have present: "p \<in> packageName ` set (importList f)" by (rule_tac image_eqI) simp_all
  have after: "importList (addImports [\<lparr>packageName = p, modules = [(k, v2)]\<rparr>] f)
                 = map g (importList f)"
    unfolding g_def by (rule addImports_present [OF present])
  have name: "packageName (g s) = packageName s" for s
    by (simp add: g_def)
  have bound: "map_of (modules (g s)) k = Some v2" if "packageName s = p" for s
    using that by (simp add: g_def addModules_single AList.update_conv')
  have "g t \<in> set (map g (importList f))"
    using assms(1) by simp
  moreover have "packageName (g t) = p"
    using assms(2) by (simp add: name)
  ultimately show "\<exists>t' \<in> set (importList (addImports [\<lparr>packageName = p, modules = [(k, v2)]\<rparr>] f)).
           packageName t' = p"
    unfolding after by (rule bexI [rotated])
  show "\<forall>t' \<in> set (importList (addImports [\<lparr>packageName = p, modules = [(k, v2)]\<rparr>] f)).
           packageName t' = p \<longrightarrow> map_of (modules t') k = Some v2"
    unfolding after
  proof (intro ballI impI)
    fix t' assume "t' \<in> set (map g (importList f))" and p: "packageName t' = p"
    then obtain s where "s \<in> set (importList f)" and t': "t' = g s" by auto
    from p t' have "packageName s = p" by (simp add: name)
    then show "map_of (modules t') k = Some v2" unfolding t' by (rule bound)
  qed
qed

lemma removeImports_single:
  "importList (removeImports [\<lparr>packageName = p, modules = bs\<rparr>] f) =
     map (\<lambda>t. if packageName t = p then t\<lparr>modules := removeModules bs (modules t)\<rparr> else t)
       (importList f)"
proof -
  have "(\<lambda>t. if p \<noteq> packageName t then t else t\<lparr>modules := removeModules bs (modules t)\<rparr>)
          = (\<lambda>t. if packageName t = p then t\<lparr>modules := removeModules bs (modules t)\<rparr> else t)"
    by (rule ext) auto
  then show ?thesis
    by (simp add: removeImports_def removeImport_def)
qed

lemma removeImports_absent:
  assumes "p \<notin> packageName ` set (importList f)"
  shows "importList (removeImports [\<lparr>packageName = p, modules = bs\<rparr>] f) = importList f"
  unfolding removeImports_single
  using assms by (intro map_idI) auto

lemma removeImports_unchanged:
  assumes "p \<notin> packageName ` set (importList f)" and "imports' f \<noteq> None"
  shows "removeImports [\<lparr>packageName = p, modules = bs\<rparr>] f = f"
proof -
  from assms(2) obtain ts where ts: "imports' f = Some ts" by auto
  have "imports' (removeImports [\<lparr>packageName = p, modules = bs\<rparr>] f)
          = Some (importList (removeImports [\<lparr>packageName = p, modules = bs\<rparr>] f))"
    by (simp add: removeImports_def)
  also have "\<dots> = imports' f"
    using removeImports_absent [OF assms(1)] ts by (simp add: importList_def)
  finally show ?thesis
    by (simp add: removeImports_def)
qed

text \<open>
  Claim C5. Adding bindings for a package that has an import statement merges them into
  the binding map of that statement; in particular, if the map holds the key \<open>k\<close> with
  some value \<open>v1\<close>, adding \<open>{k: v2}\<close> leaves a statement for the package, and its map
  holds \<open>k\<close> with \<open>v2\<close>, the other keys being as before (last write wins). Adding
  bindings for a package without an import statement appends a new statement with the
  package name and exactly the bindings given.
\<close>

theorem addImports_merges_or_creates:
  "(p \<in> packageName ` set (importList f) \<longrightarrow>
      importList (addImports [\<lparr>packageName = p, modules = bs\<rparr>] f) =
        map (\<lambda>t. if packageName t = p then t\<lparr>modules := addModules bs (modules t)\<rparr> else t)
          (importList f)) \<and>
   (t \<in> set (importList f) \<and> packageName t = p \<and> map_of (modules t) k = Some v1 \<longrightarrow>
      (\<exists>t' \<in> set (importList (addImports [\<lparr>packageName = p, modules = [(k, v2)]\<rparr>] f)).
          packageName t' = p) \<and>
      (\<forall>t' \<in> set (importList (addImports [\<lparr>packageName = p, modules = [(k, v2)]\<rparr>] f)).
          packageName t' = p \<longrightarrow> map_of (modules t') k = Some v2)) \<and>
   map_of (addModules [(k, v2)] ms) = (map_of ms)(k \<mapsto> v2) \<and>
   (p \<notin> packageName ` set (importList f) \<longrightarrow>
      importList (addImports [\<lparr>packageName = p, modules = bs\<rparr>] f) =
        importList f @ [\<lparr>packageName = p, modules = bs\<rparr>])"
  using addImports_present [of p f bs] addImports_absent [of p f bs]
    addImports_overwrites [of t f p k v2]
  by (simp add: addModules_single AList.update_conv')

theorem addImports_merges_or_creates_witness:
  "''react'' \<in> packageName ` set (importList exampleFile) \<and>
   reactImport \<in> set (importList exampleFile) \<and> packageName reactImport = ''react'' \<and>
   map_of (modules reactImport) ''useState'' = Some [] \<and>
   importList (addImports [\<lparr>packageName = ''react'', modules = [(''useState'', ''use'')]\<rparr>] exampleFile) =
     [\<lparr>packageName = ''react'', modules = [(''React'', ''default''), (''useState'', ''use'')]\<rparr>] \<and>
   map_of (modules (hd (importList
      (addImports [\<lparr>packageName = ''react'', modules = [(''useState'', ''use'')]\<rparr>] exampleFile))))
     ''useState'' = Some ''use'' \<and>
   ''lodash'' \<notin> packageName ` set (importList exampleFile) \<and>
   importList (addImports [\<lparr>packageName = ''lodash'', modules = [(''map'', [])]\<rparr>] exampleFile) =
     [reactImport, \<lparr>packageName = ''lodash'', modules = [(''map'', [])]\<rparr>]"
proof -
  have here: "''react'' \<in> packageName ` set (importList exampleFile)"
    and stmt: "reactImport \<in> set (importList exampleFile) \<and> packageName reactImport = ''react'' \<and>
               map_of (modules reactImport) ''useState'' = Some []"
    and absent: "''lodash'' \<notin> packageName ` set (importList exampleFile)"
    by (simp_all add: exampleFile_def reactImport_def importList_def)
  show ?thesis
    using here stmt absent
      addImports_merges_or_creates [of "''react''" exampleFile "[(''useState'', ''use'')]" reactImport "''useState''" "[]" "''use''" "[]"]
      addImports_merges_or_creates [of "''lodash''" exampleFile "[(''map'', [])]" reactImport "''useState''" "[]" "''use''" "[]"]
    by (simp add: exampleFile_def reactImport_def importList_def addModules_def)
qed

text \<open>
  Claim C4. Removing bindings for a package takes out of the binding map of its statement
  the entries whose key is a key of the bindings given, whatever values were given, and
  leaves the other entries and the other statements as they are. If none of the keys is
  in the map, the map is unchanged; if no statement has the package name, the statements
  are unchanged, and so is the whole document once \<open>this.imports\<close> has been assigned.
  The method has no failing branch, and the declarations are never touched.
\<close>

theorem removeImports_deletes_keys:
  "importList (removeImports [\<lparr>packageName = p, modules = bs\<rparr>] f) =
     map (\<lambda>t. if packageName t = p then t\<lparr>modules := removeModules bs (modules t)\<rparr> else t)
       (importList f) \<and>
   removeModules bs ms = filter (\<lambda>(k, v). k \<notin> fst ` set bs) ms \<and>
   (fst ` set bs \<inter> fst ` set ms = {} \<longrightarrow> removeModules bs ms = ms) \<and>
   (p \<notin> packageName ` set (importList f) \<longrightarrow>
      importList (removeImports [\<lparr>packageName = p, modules = bs\<rparr>] f) = importList f \<and>
      (imports' f \<noteq> None \<longrightarrow> removeImports [\<lparr>packageName = p, modules = bs\<rparr>] f = f)) \<and>
   declarations (removeImports [\<lparr>packageName = p, modules = bs\<rparr>] f) = declarations f"
  using removeImports_single [of p bs f] removeModules_filter [of bs ms]
    removeModules_absent [of bs ms] removeImports_absent [of p f bs]
    removeImports_unchanged [of p f bs]
  by (simp add: removeImports_def)

theorem removeImports_deletes_keys_witness:
  "importList (removeImports [\<lparr>packageName = ''react'', modules = [(''useState'', ''anything'')]\<rparr>] exampleFile) =
     [\<lparr>packageName = ''react'', modules = [(''React'', ''default'')]\<rparr>] \<and>
   fst ` set [(''useEffect'', [])] \<inter> fst ` set (modules reactImport) = {} \<and>
   removeModules [(''useEffect'', [])] (modules reactImport) = modules reactImport \<and>
   ''lodash'' \<notin> packageName ` set (importList exampleFile) \<and> imports' exampleFile \<noteq> None \<and>
   removeImports [\<lparr>packageName = ''lodash'', modules = [(''map'', [])]\<rparr>] exampleFile = exampleFile"
proof -
  have disjoint: "fst ` set [(''useEffect'', [])] \<inter> fst ` set (modules reactImport) = {}"
    and absent: "''lodash'' \<notin> packageName ` set (importList exampleFile)"
    and assigned: "imports' exampleFile \<noteq> None"
    by (simp_all add: exampleFile_def reactImport_def importList_def)
  show ?thesis
    using disjoint absent assigned
      removeImports_deletes_keys [of "''react''" "[(''useState'', ''anything'')]" exampleFile "modules reactImport"]
      removeImports_deletes_keys [of "''lodash''" "[(''map'', [])]" exampleFile "modules reactImport"]
      removeImports_deletes_keys [of "''lodash''" "[(''useEffect'', [])]" exampleFile "modules reactImport"]
    by (simp add: exampleFile_def reactImport_def importList_def)
qed

subsection \<open>Parsing import declarations\<close>






subsection \<open>Declarations and the assembled text\<close>

lemma addImports_declarations [simp]: "declarations (addImports items f) = declarations f"
  by (simp add: addImports_def)

lemma removeImports_declarations [simp]: "declarations (removeImports items f) = declarations f"
  by (simp add: removeImports_def)

lemma setImports_declarations [simp]: "declarations (setImports adds removes f) = declarations f"
  by (simp add: setImports_def)

lemma parseImportDeclaration_declarations [simp]:
  "declarations (parseImportDeclaration d g bodyItem f) = declarations f"
  unfolding parseImportDeclaration_def
  by (simp add: foldl_invariant [where P = "\<lambda>f'. declarations f' = declarations f"])

lemma declarationList_cong: "declarations f = declarations f' \<Longrightarrow> declarationList f = declarationList f'"
  by (simp add: declarationList_def)

lemma parseBodyItem_declarations:
  "declarationList (parseBodyItem d g content f bodyItem) =
     declarationList f @ (if isImportDeclaration bodyItem then [] else [bodyItemText content bodyItem])"
  by (cases bodyItem) (simp_all add: parseBodyItem_def bodyItemText_def declarationList_cong [of "parseImportDeclaration d g _ f" f])

lemma foldl_parseBodyItem_declarations:
  "declarationList (foldl (parseBodyItem d g content) f body) =
     declarationList f @ map (bodyItemText content) (filter (\<lambda>b. \<not> isImportDeclaration b) body)"
  by (induction body arbitrary: f) (simp_all add: parseBodyItem_declarations)

lemma parseContent_declarations:
  assumes "parse (sp content) = Inr body"
  shows "declarationList (snd (parseContent sp file parse d g content f)) =
           map (bodyItemText (sp content)) (filter (\<lambda>b. \<not> isImportDeclaration b) body)"
  using assms
  by (simp add: parseContent_def parseTypescriptContent_def Let_def foldl_parseBodyItem_declarations)

lemma substr_nth:
  assumes "s \<le> e" and "e \<le> length content"
  shows "substr content s (int e - int s) = map ((!) content) [s..<e]"
proof -
  have len: "length (take (e - s) (drop s content)) = e - s"
    using assms by simp
  have "take (e - s) (drop s content) = map ((!) content) [s..<e]"
  proof (rule nth_equalityI)
    show "length (take (e - s) (drop s content)) = length (map ((!) content) [s..<e])"
      using len by simp
  next
    fix i assume "i < length (take (e - s) (drop s content))"
    with len have i: "i < e - s" by simp
    with assms show "take (e - s) (drop s content) ! i = map ((!) content) [s..<e] ! i"
      by simp
  qed
  moreover have "nat (int e - int s) = e - s"
    by simp
  ultimately show ?thesis
    by (simp only: substr_def)
qed

lemma getContent_declarations:
  "declarations (snd (getContent lc d g eol f)) = declarations f"
  by (simp add: getContent_def Let_def split: option.splits)

lemma join_Cons: "join sep (x # xs) = (if xs = [] then x else x @ sep @ join sep xs)"
  by (cases xs) simp_all

lemma join_append:
  "ys \<noteq> [] \<Longrightarrow> join sep (xs @ ys) = concat (map (\<lambda>l. l @ sep) xs) @ join sep ys"
  by (induction xs) (simp_all add: join_Cons)

lemma join_append_single:
  "join sep (xs @ [x]) = concat (map (\<lambda>l. l @ sep) xs) @ x"
  by (simp add: join_append)

lemma join_lines_blank:
  "join eol (ls @ [[]] @ ds) =
     concat (map (\<lambda>l. l @ eol) ls) @ (if ds = [] then [] else eol @ join eol ds)"
proof (cases ds)
  case Nil
  then show ?thesis by (simp add: join_append_single)
next
  case (Cons d ds')
  have "join eol (ls @ [] # d # ds') = concat (map (\<lambda>l. l @ eol) ls) @ join eol ([] # d # ds')"
    by (rule join_append) simp
  then show ?thesis by (simp add: Cons)
qed

lemma getContent_text:
  "fst (getContent lc d g eol f) =
     join eol (importLines d g (sort' (compareImports lc) (importList f)) @ [[]] @ declarationList f)"
  by (simp add: getContent_def Let_def importList_def sort'_def importLines_def split: option.splits)

lemma importLines_nonempty: "[] \<notin> set (importLines d g ts)"
  by (simp add: importLines_def)

lemma toString_empty: "modules t = [] \<Longrightarrow> toString d g t = []"
  by (simp add: toString_def)

lemma toString_nonempty: "modules t \<noteq> [] \<Longrightarrow> toString d g t \<noteq> []"
  by (simp add: toString_def Let_def)

lemma importLines_filter:
  "importLines d g ts = importLines d g (filter (\<lambda>t. modules t \<noteq> []) ts)"
  unfolding importLines_def
  by (induction ts) (auto simp: toString_empty)

text \<open>
  Claim C8. After a successful parse the declarations are the texts of the statements that
  are not import declarations, in the order of the source, each the substring of the
  parsed content that its range spans (for a range inside the content, the characters
  from its start up to its end); no import declaration contributes one. \<open>addImports\<close>,
  \<open>removeImports\<close>, \<open>setImports\<close> and \<open>getContent\<close> leave the declarations as they are,
  and the text that \<open>getContent\<close> returns ends with the declarations joined by the line
  terminator.
\<close>

theorem declarations_verbatim:
  assumes "parse (sp content) = Inr body"
  shows "declarationList (snd (parseContent sp file parse d g content f)) =
           map (bodyItemText (sp content)) (filter (\<lambda>b. \<not> isImportDeclaration b) body) \<and>
         (\<forall>b \<in> set body.
            fst (nodeRange b) \<le> snd (nodeRange b) \<and> snd (nodeRange b) \<le> length (sp content) \<longrightarrow>
            bodyItemText (sp content) b = map ((!) (sp content)) [fst (nodeRange b)..<snd (nodeRange b)]) \<and>
         declarations (addImports items f') = declarations f' \<and>
         declarations (removeImports items f') = declarations f' \<and>
         declarations (setImports adds removes f') = declarations f' \<and>
         declarations (snd (getContent lc d g eol f')) = declarations f' \<and>
         (\<exists>before. fst (getContent lc d g eol f') = before @ join eol (declarationList f'))"
proof -
  have "\<exists>before. fst (getContent lc d g eol f') = before @ join eol (declarationList f')"
    unfolding getContent_text join_lines_blank by (cases "declarationList f'") auto
  then show ?thesis
    using parseContent_declarations [where parse = parse and sp = sp and content = content, OF assms]
    by (simp add: getContent_declarations bodyItemText_def substr_nth)
qed

theorem declarations_verbatim_witness:
  "exampleParse (id ''import React from X;const x = 1;'') =
     Inr [ImportDeclaration ''react'' [ImportDefaultSpecifier ''React''] (0, 20), OtherStatement (20, 32)] \<and>
   declarationList (snd (parseContent id ''a.ts'' exampleParse ''default'' ''*''
      ''import React from X;const x = 1;'' newFile)) = [''const x = 1;''] \<and>
   fst (nodeRange (OtherStatement (20, 32))) \<le> snd (nodeRange (OtherStatement (20, 32))) \<and>
   snd (nodeRange (OtherStatement (20, 32))) \<le> length (id ''import React from X;const x = 1;'') \<and>
   bodyItemText (id ''import React from X;const x = 1;'') (OtherStatement (20, 32)) = ''const x = 1;''"
proof -
  have parsed: "exampleParse (id ''import React from X;const x = 1;'') =
     Inr [ImportDeclaration ''react'' [ImportDefaultSpecifier ''React''] (0, 20), OtherStatement (20, 32)]"
    by (simp add: exampleParse_def)
  have spanned: "bodyItemText ''import React from X;const x = 1;'' (OtherStatement (20, 32)) = ''const x = 1;''"
    by (simp add: bodyItemText_def substr_def)
  show ?thesis
    using parsed spanned
      declarations_verbatim [where parse = exampleParse and sp = id and content = "''import React from X;const x = 1;''",
          OF parsed, of "''a.ts''" "''default''" "''*''" newFile]
    by simp
qed

text \<open>
  Claim C6. An import statement with an empty binding map renders to the empty string (and
  only such a statement does), the import lines of \<open>getContent\<close> contain no empty string,
  and the text of \<open>getContent\<close> is the one obtained when the statements with an empty
  binding map are left out before rendering: such a statement contributes neither a line
  nor a blank line.
\<close>

theorem empty_statement_contributes_nothing:
  "(modules t = [] \<longrightarrow> toString d g t = []) \<and>
   (modules t \<noteq> [] \<longrightarrow> toString d g t \<noteq> []) \<and>
   [] \<notin> set (importLines d g (sort' (compareImports lc) (importList f))) \<and>
   fst (getContent lc d g eol f) =
     join eol (importLines d g (filter (\<lambda>t. modules t \<noteq> []) (sort' (compareImports lc) (importList f)))
               @ [[]] @ declarationList f)"
  unfolding getContent_text
  using importLines_filter [of d g "sort' (compareImports lc) (importList f)"]
  by (simp add: toString_empty toString_nonempty importLines_nonempty)

theorem empty_statement_contributes_nothing_witness:
  "modules \<lparr>packageName = ''react'', modules = []\<rparr> = [] \<and>
   toString ''default'' ''*'' \<lparr>packageName = ''react'', modules = []\<rparr> = [] \<and>
   modules reactImport \<noteq> [] \<and>
   toString ''default'' ''*'' reactImport \<noteq> [] \<and>
   fst (getContent codeUnitCompare ''default'' ''*'' [CHR 0x0A] emptiedFile) = [CHR 0x0A] @ ''const x = 1;''"
  using empty_statement_contributes_nothing [of "\<lparr>packageName = ''react'', modules = []\<rparr>" "''default''" "''*''" codeUnitCompare emptiedFile "[CHR 0x0A]"]
    empty_statement_contributes_nothing [of reactImport "''default''" "''*''" codeUnitCompare emptiedFile "[CHR 0x0A]"]
  by (simp add: reactImport_def emptiedFile_def importList_def declarationList_def sort'_def importLines_def)

subsection \<open>Parse failures\<close>

lemma parseTypescriptContent_Inl:
  assumes "parse content = Inl e"
  shows "parseTypescriptContent file parse content =
           (case lineNumber e of
              None \<Rightarrow> Inl (Error (errorMessage file e content))
            | Some n \<Rightarrow>
                if n = 0 then Inl (Error (errorMessage file e content))
                else if 1 \<le> n \<and> n \<le> int (length (split CHR 0x0A content))
                then Inl (Error (errorMessage file e (split CHR 0x0A content ! nat (n - 1))))
                else Inl TypeError)"
  using assms
  by (simp add: parseTypescriptContent_def at_def Let_def split: option.splits)

lemma parse_error_message:
  assumes "parse content = Inl e" and "lineNumber e = Some n"
    and "1 \<le> n" and "n \<le> int (length (split CHR 0x0A content))"
  shows "parseTypescriptContent file parse content =
           Inl (Error (errorMessage file e (split CHR 0x0A content ! nat (n - 1))))"
  using assms by (simp add: parseTypescriptContent_Inl [where parse = parse and content = content])




text \<open>
  Claim C9, at an input where it fails. The content \<open>const a = 1;\rconst = ;\<close> has its two lines
  separated by a carriage return alone. A parser that counts this as a line break reports
  the syntax error in line 2, but \<open>content.split('\n')\<close> has one piece only: \<open>parseContent\<close>
  ends with the \<open>TypeError\<close>, not with the \<open>Error\<close> that carries the file path, the
  serialized diagnostic and the trimmed line (lemma \<open>parse_error_message\<close> is the case in
  which it does).
\<close>

theorem parse_failure_line_beyond_content:
  "parseContent id ''src/App.tsx'' exampleParse ''default'' ''*''
     (''const a = 1;'' @ [CHR 0x0D] @ ''const = ;'') newFile =
     (Inl TypeError, \<lparr>imports' = Some [], declarations = Some [], defaultDeclaration = Some None\<rparr>)"
  by (simp add: parseContent_def parseTypescriptContent_def exampleParse_def at_def newFile_def)

subsection \<open>The order of the import statements\<close>

lemma compareImports_relative:
  "isRelative (packageName x) \<Longrightarrow> compareImports lc x y = 1"
  by (simp add: compareImports_def)

lemma compareImports_before_relative:
  "\<not> isRelative (packageName x) \<Longrightarrow> isRelative (packageName y) \<Longrightarrow> compareImports lc x y = - 1"
  by (simp add: compareImports_def)

lemma compareImports_plain:
  "\<not> isRelative (packageName x) \<Longrightarrow> \<not> isRelative (packageName y)
     \<Longrightarrow> compareImports lc x y = lc (packageName x) (packageName y)"
  by (simp add: compareImports_def)

lemma insertSorted_relative:
  "isRelative (packageName x) \<Longrightarrow> insertSorted (compareImports lc) x ys = ys @ [x]"
  by (induction ys) (simp_all add: compareImports_relative)

lemma insertSorted_before_relatives:
  assumes "\<not> isRelative (packageName x)" and "\<forall>r \<in> set rs. isRelative (packageName r)"
  shows "insertSorted (compareImports lc) x (ns @ rs) = insertSorted (compareImports lc) x ns @ rs"
proof (induction ns)
  case Nil
  show ?case
  proof (cases rs)
    case Nil
    then show ?thesis by simp
  next
    case (Cons r rs')
    with assms have "compareImports lc x r = - 1"
      by (simp add: compareImports_before_relative)
    with Cons show ?thesis by simp
  qed
next
  case (Cons n ns)
  then show ?case by simp
qed

lemma sort'_snoc: "sort' comparefn (xs @ [x]) = insertSorted comparefn x (sort' comparefn xs)"
  by (simp add: sort'_def)

lemma sort'_split:
  "sort' (compareImports lc) ts =
     sort' (compareImports lc) (filter (\<lambda>t. \<not> isRelative (packageName t)) ts)
       @ filter (\<lambda>t. isRelative (packageName t)) ts"
proof (induction ts rule: rev_induct)
  case Nil
  show ?case by (simp add: sort'_def)
next
  case (snoc x ts)
  show ?case
  proof (cases "isRelative (packageName x)")
    case True
    then show ?thesis
      by (simp add: sort'_snoc snoc.IH insertSorted_relative)
  next
    case False
    have "insertSorted (compareImports lc) x (sort' (compareImports lc) ts) =
            insertSorted (compareImports lc) x
              (sort' (compareImports lc) (filter (\<lambda>t. \<not> isRelative (packageName t)) ts))
            @ filter (\<lambda>t. isRelative (packageName t)) ts"
      unfolding snoc.IH by (rule insertSorted_before_relatives [OF False]) simp
    with False show ?thesis
      by (simp add: sort'_snoc)
  qed
qed

lemma set_insertSorted: "set (insertSorted comparefn x ys) = insert x (set ys)"
  by (induction ys) auto

lemma set_sort': "set (sort' comparefn xs) = set xs"
  by (induction xs rule: rev_induct) (simp_all add: sort'_snoc set_insertSorted, simp add: sort'_def)

lemma count_list_insertSorted:
  "count_list (insertSorted comparefn x ys) z = count_list (x # ys) z"
  by (induction ys) auto

lemma count_list_sort': "count_list (sort' comparefn xs) z = count_list xs z"
  by (induction xs rule: rev_induct) (simp_all add: sort'_snoc count_list_insertSorted, simp add: sort'_def)

lemma sorted_insertSorted:
  assumes trans: "\<And>a b c. lc a b \<le> 0 \<Longrightarrow> lc b c \<le> 0 \<Longrightarrow> lc a c \<le> (0::int)"
    and total: "\<And>a b. 0 \<le> lc a b \<Longrightarrow> lc b a \<le> 0"
    and plain: "\<not> isRelative (packageName x)" "\<forall>y \<in> set ys. \<not> isRelative (packageName y)"
    and sorted: "sorted_wrt (\<lambda>a b. lc (packageName a) (packageName b) \<le> 0) ys"
  shows "sorted_wrt (\<lambda>a b. lc (packageName a) (packageName b) \<le> 0)
           (insertSorted (compareImports lc) x ys)"
  using plain(2) sorted
proof (induction ys)
  case Nil
  show ?case by simp
next
  case (Cons y ys)
  from Cons.prems have y: "\<not> isRelative (packageName y)"
    and rest: "\<forall>z \<in> set ys. \<not> isRelative (packageName z)"
    and above: "\<forall>z \<in> set ys. lc (packageName y) (packageName z) \<le> 0"
    and tail: "sorted_wrt (\<lambda>a b. lc (packageName a) (packageName b) \<le> 0) ys"
    by simp_all
  have cmp: "compareImports lc x y = lc (packageName x) (packageName y)"
    using plain(1) y by (rule compareImports_plain)
  show ?case
  proof (cases "lc (packageName x) (packageName y) < 0")
    case True
    then have xy: "lc (packageName x) (packageName y) \<le> 0" by simp
    have "\<forall>z \<in> set ys. lc (packageName x) (packageName z) \<le> 0"
      using above trans [OF xy] by blast
    with True xy above tail show ?thesis
      by (simp add: cmp)
  next
    case False
    then have "lc (packageName y) (packageName x) \<le> 0"
      by (intro total) simp
    with False above Cons.IH [OF rest tail] show ?thesis
      by (simp add: cmp set_insertSorted)
  qed
qed

lemma sorted_sort':
  assumes trans: "\<And>a b c. lc a b \<le> 0 \<Longrightarrow> lc b c \<le> 0 \<Longrightarrow> lc a c \<le> (0::int)"
    and total: "\<And>a b. 0 \<le> lc a b \<Longrightarrow> lc b a \<le> 0"
    and plain: "\<forall>y \<in> set ys. \<not> isRelative (packageName y)"
  shows "sorted_wrt (\<lambda>a b. lc (packageName a) (packageName b) \<le> 0) (sort' (compareImports lc) ys)"
  using plain
proof (induction ys rule: rev_induct)
  case Nil
  show ?case by (simp add: sort'_def)
next
  case (snoc y ys)
  then have "sorted_wrt (\<lambda>a b. lc (packageName a) (packageName b) \<le> 0) (sort' (compareImports lc) ys)"
    by simp
  moreover have "\<not> isRelative (packageName y)"
    and "\<forall>z \<in> set (sort' (compareImports lc) ys). \<not> isRelative (packageName z)"
    using snoc.prems by (simp_all add: set_sort')
  ultimately show ?case
    unfolding sort'_snoc by (intro sorted_insertSorted [OF trans total]) 
qed

lemma codeUnitCompare_total: "0 \<le> codeUnitCompare a b \<Longrightarrow> codeUnitCompare b a \<le> 0"
  by (induction a b rule: codeUnitCompare.induct) (auto split: if_splits)

lemma codeUnitCompare_trans:
  "codeUnitCompare a b \<le> 0 \<Longrightarrow> codeUnitCompare b c \<le> 0 \<Longrightarrow> codeUnitCompare a c \<le> 0"
proof (induction a b arbitrary: c rule: codeUnitCompare.induct)
  case 1
  then show ?case by simp
next
  case (2 b bs)
  then show ?case by (cases c) simp_all
next
  case (3 a as)
  then show ?case by simp
next
  case (4 a as b bs)
  show ?case
  proof (cases c)
    case Nil
    with 4 show ?thesis by simp
  next
    case (Cons e es)
    show ?thesis
    proof (cases "(of_char a :: nat) < of_char b")
      case True
      with 4(3) have "(of_char a :: nat) < of_char e"
        unfolding Cons by (simp split: if_splits)
      then show ?thesis by (simp add: Cons)
    next
      case False
      with 4(2) have ab: "(of_char a :: nat) = of_char b" and "codeUnitCompare as bs \<le> 0"
        by (simp_all split: if_splits)
      show ?thesis
      proof (cases "(of_char b :: nat) < of_char e")
        case True
        with ab show ?thesis by (simp add: Cons)
      next
        case be: False
        with 4(3) have "(of_char b :: nat) = of_char e" and "codeUnitCompare bs es \<le> 0"
          unfolding Cons by (simp_all split: if_splits)
        with ab False be \<open>codeUnitCompare as bs \<le> 0\<close> 4(1) [of es] show ?thesis
          by (simp add: Cons)
      qed
    qed
  qed
qed

lemma getContent_imports:
  "importList (snd (getContent lc d g eol f)) = sort' (compareImports lc) (importList f)"
  by (simp add: getContent_def Let_def importList_def sort'_def split: option.splits)

text \<open>
  Claim C2. Let \<open>localeCompare\<close> order the names consistently (it is transitive, and
  when it does not put a name strictly before another, it puts the other before it or
  level with it). Then the order in which
  \<open>getContent\<close> leaves and renders the import statements is: the statements whose package
  name does not start with a dot, followed by those whose name does; the first group is
  sorted by \<open>localeCompare\<close> of the package names; the second group is in arrival order.
  The statements are the same as before, each as often as before.
\<close>

theorem getContent_import_order:
  assumes trans: "\<And>a b c. localeCompare a b \<le> 0 \<Longrightarrow> localeCompare b c \<le> 0 \<Longrightarrow> localeCompare a c \<le> (0::int)"
    and total: "\<And>a b. 0 \<le> localeCompare a b \<Longrightarrow> localeCompare b a \<le> 0"
  shows "importList (snd (getContent localeCompare d g eol f)) =
           filter (\<lambda>t. \<not> isRelative (packageName t)) (importList (snd (getContent localeCompare d g eol f)))
             @ filter (\<lambda>t. isRelative (packageName t)) (importList (snd (getContent localeCompare d g eol f))) \<and>
         sorted_wrt (\<lambda>a b. localeCompare (packageName a) (packageName b) \<le> 0)
           (filter (\<lambda>t. \<not> isRelative (packageName t)) (importList (snd (getContent localeCompare d g eol f)))) \<and>
         filter (\<lambda>t. isRelative (packageName t)) (importList (snd (getContent localeCompare d g eol f))) =
           filter (\<lambda>t. isRelative (packageName t)) (importList f) \<and>
         (\<forall>t. count_list (importList (snd (getContent localeCompare d g eol f))) t = count_list (importList f) t) \<and>
         fst (getContent localeCompare d g eol f) =
           join eol (importLines d g (importList (snd (getContent localeCompare d g eol f)))
                     @ [[]] @ declarationList f)"
proof -
  let ?plain = "\<lambda>t. \<not> isRelative (packageName t)"
  let ?rel = "\<lambda>t. isRelative (packageName t)"
  let ?cmp = "compareImports localeCompare"
  let ?out = "importList (snd (getContent localeCompare d g eol f))"
  let ?front = "sort' ?cmp (filter ?plain (importList f))"
  let ?relatives = "filter ?rel (importList f)"
  have out: "?out = ?front @ ?relatives"
    unfolding getContent_imports by (rule sort'_split)
  have front_plain: "\<forall>t \<in> set ?front. ?plain t"
    unfolding set_sort' by simp
  have plain_front: "filter ?plain ?front = ?front"
    using front_plain by (intro filter_True) blast
  have rel_front: "filter ?rel ?front = []"
    using front_plain unfolding filter_empty_conv by blast
  have rel_relatives: "filter ?rel ?relatives = ?relatives"
    by (intro filter_True) simp
  have plain_relatives: "filter ?plain ?relatives = []"
    unfolding filter_empty_conv by simp
  have plain_out: "filter ?plain ?out = ?front"
    unfolding out filter_append plain_front plain_relatives by simp
  have rel_out: "filter ?rel ?out = ?relatives"
    unfolding out filter_append rel_front rel_relatives by simp
  have parts: "?out = filter ?plain ?out @ filter ?rel ?out"
    unfolding plain_out rel_out by (rule out)
  have front_sorted: "sorted_wrt (\<lambda>a b. localeCompare (packageName a) (packageName b) \<le> 0) ?front"
  proof (rule sorted_sort')
    show "localeCompare a b \<le> 0 \<Longrightarrow> localeCompare b c \<le> 0 \<Longrightarrow> localeCompare a c \<le> 0" for a b c
      by (rule trans)
    show "0 \<le> localeCompare a b \<Longrightarrow> localeCompare b a \<le> 0" for a b
      by (rule total)
    show "\<forall>t \<in> set (filter ?plain (importList f)). ?plain t"
      by simp
  qed
  have sorted: "sorted_wrt (\<lambda>a b. localeCompare (packageName a) (packageName b) \<le> 0) (filter ?plain ?out)"
    unfolding plain_out by (rule front_sorted)
  have counts: "\<forall>t. count_list ?out t = count_list (importList f) t"
    unfolding getContent_imports by (intro allI) (rule count_list_sort')
  have assembled: "fst (getContent localeCompare d g eol f) =
           join eol (importLines d g ?out @ [[]] @ declarationList f)"
    unfolding getContent_imports by (rule getContent_text)
  from parts sorted rel_out counts assembled show ?thesis
    by (intro conjI)
qed

theorem getContent_import_order_witness:
  "map packageName (importList unsortedFile) = [''lodash'', ''./utils'', ''react'', ''../shared''] \<and>
   map packageName (importList (snd (getContent codeUnitCompare ''default'' ''*'' [CHR 0x0A] unsortedFile))) =
     [''lodash'', ''react'', ''./utils'', ''../shared''] \<and>
   map packageName (filter (\<lambda>t. isRelative (packageName t))
      (importList (snd (getContent codeUnitCompare ''default'' ''*'' [CHR 0x0A] unsortedFile)))) =
     [''./utils'', ''../shared'']"
proof -
  have arrival: "map packageName (importList unsortedFile) = [''lodash'', ''./utils'', ''react'', ''../shared'']"
    by (simp add: unsortedFile_def importList_def)
  have relatives: "map packageName (filter (\<lambda>t. isRelative (packageName t)) (importList unsortedFile)) =
                     [''./utils'', ''../shared'']"
    by (simp add: unsortedFile_def importList_def isRelative_def)
  have order: "map packageName (importList (snd (getContent codeUnitCompare ''default'' ''*'' [CHR 0x0A] unsortedFile))) =
     [''lodash'', ''react'', ''./utils'', ''../shared'']"
    unfolding getContent_imports
    by (simp add: unsortedFile_def importList_def sort'_def compareImports_def isRelative_def)
  have keep: "filter (\<lambda>t. isRelative (packageName t))
      (importList (snd (getContent codeUnitCompare ''default'' ''*'' [CHR 0x0A] unsortedFile))) =
      filter (\<lambda>t. isRelative (packageName t)) (importList unsortedFile)"
    by (rule conjunct1 [OF conjunct2 [OF conjunct2
          [OF getContent_import_order [of codeUnitCompare "''default''" "''*''" "[CHR 0x0A]" unsortedFile,
                  OF codeUnitCompare_trans codeUnitCompare_total]]]])
  show ?thesis
    by (simp only: arrival order keep relatives simp_thms)
qed

subsection \<open>The assembled text, in order\<close>

lemma sort'_parts:
  "filter (\<lambda>t. \<not> isRelative (packageName t)) (sort' (compareImports lc) ts) =
     sort' (compareImports lc) (filter (\<lambda>t. \<not> isRelative (packageName t)) ts)"
  "filter (\<lambda>t. isRelative (packageName t)) (sort' (compareImports lc) ts) =
     filter (\<lambda>t. isRelative (packageName t)) ts"
proof -
  let ?plain = "\<lambda>t. \<not> isRelative (packageName t)"
  let ?rel = "\<lambda>t. isRelative (packageName t)"
  let ?front = "sort' (compareImports lc) (filter ?plain ts)"
  let ?relatives = "filter ?rel ts"
  have whole: "sort' (compareImports lc) ts = ?front @ ?relatives"
    by (rule sort'_split)
  have front_plain: "\<forall>t \<in> set ?front. ?plain t"
    unfolding set_sort' by simp
  have plain_front: "filter ?plain ?front = ?front"
    using front_plain by (intro filter_True) blast
  have rel_front: "filter ?rel ?front = []"
    using front_plain unfolding filter_empty_conv by blast
  have rel_relatives: "filter ?rel ?relatives = ?relatives"
    by (intro filter_True) simp
  have plain_relatives: "filter ?plain ?relatives = []"
    unfolding filter_empty_conv by simp
  show "filter ?plain (sort' (compareImports lc) ts) = ?front"
    unfolding whole filter_append plain_front plain_relatives by simp
  show "filter ?rel (sort' (compareImports lc) ts) = ?relatives"
    unfolding whole filter_append rel_front rel_relatives by simp
qed

text \<open>
  Claim C7. The text of \<open>getContent\<close> is the list of the non-empty renderings of the
  import statements in sorted order, then one empty string, then the declarations in
  their recorded order, joined with the line terminator: every import line is followed
  by a terminator, then comes the terminator of the empty line and the joined
  declarations (nothing more when there are no declarations). The order of the rendered
  statements is the one \<open>getContent\<close> leaves in the document: the statements whose package
  name does not start with a dot come first, those whose name does follow in arrival
  order, no statement is lost or added, and the first group is sorted by
  \<open>localeCompare\<close> when that is a consistent order. With no import line the text is the
  empty line followed by the declarations.
\<close>

theorem getContent_assembly:
  "fst (getContent lc d g eol f) =
     join eol (filter (\<lambda>line. line \<noteq> [])
                 (map (toString d g) (importList (snd (getContent lc d g eol f))))
               @ [[]] @ declarationList f) \<and>
   fst (getContent lc d g eol f) =
     concat (map (\<lambda>line. line @ eol)
               (filter (\<lambda>line. line \<noteq> [])
                  (map (toString d g) (importList (snd (getContent lc d g eol f))))))
       @ (if declarationList f = [] then [] else eol @ join eol (declarationList f)) \<and>
   importList (snd (getContent lc d g eol f)) =
     filter (\<lambda>t. \<not> isRelative (packageName t)) (importList (snd (getContent lc d g eol f)))
       @ filter (\<lambda>t. isRelative (packageName t)) (importList (snd (getContent lc d g eol f))) \<and>
   filter (\<lambda>t. isRelative (packageName t)) (importList (snd (getContent lc d g eol f))) =
     filter (\<lambda>t. isRelative (packageName t)) (importList f) \<and>
   (\<forall>t. count_list (importList (snd (getContent lc d g eol f))) t = count_list (importList f) t) \<and>
   ((\<forall>a b c. lc a b \<le> 0 \<and> lc b c \<le> 0 \<longrightarrow> lc a c \<le> 0) \<and> (\<forall>a b. 0 \<le> lc a b \<longrightarrow> lc b a \<le> 0) \<longrightarrow>
      sorted_wrt (\<lambda>a b. lc (packageName a) (packageName b) \<le> 0)
        (filter (\<lambda>t. \<not> isRelative (packageName t)) (importList (snd (getContent lc d g eol f))))) \<and>
   (filter (\<lambda>line. line \<noteq> []) (map (toString d g) (importList (snd (getContent lc d g eol f)))) = [] \<longrightarrow>
      fst (getContent lc d g eol f) = join eol ([] # declarationList f))"
proof -
  let ?plain = "\<lambda>t. \<not> isRelative (packageName t)"
  let ?rel = "\<lambda>t. isRelative (packageName t)"
  let ?out = "importList (snd (getContent lc d g eol f))"
  let ?lines = "filter (\<lambda>line. line \<noteq> []) (map (toString d g) ?out)"
  have lines: "importLines d g (sort' (compareImports lc) (importList f)) = ?lines"
    unfolding getContent_imports by (simp add: importLines_def)
  have assembled: "fst (getContent lc d g eol f) = join eol (?lines @ [[]] @ declarationList f)"
    unfolding lines [symmetric] by (rule getContent_text)
  have terminated: "fst (getContent lc d g eol f) =
      concat (map (\<lambda>line. line @ eol) ?lines)
        @ (if declarationList f = [] then [] else eol @ join eol (declarationList f))"
    unfolding assembled by (rule join_lines_blank)
  have parts: "?out = filter ?plain ?out @ filter ?rel ?out"
    unfolding getContent_imports sort'_parts by (rule sort'_split)
  have arrival: "filter ?rel ?out = filter ?rel (importList f)"
    unfolding getContent_imports by (rule sort'_parts)
  have counts: "\<forall>t. count_list ?out t = count_list (importList f) t"
    unfolding getContent_imports by (intro allI) (rule count_list_sort')
  have ordered: "sorted_wrt (\<lambda>a b. lc (packageName a) (packageName b) \<le> 0) (filter ?plain ?out)"
    if consistent: "(\<forall>a b c. lc a b \<le> 0 \<and> lc b c \<le> 0 \<longrightarrow> lc a c \<le> 0) \<and> (\<forall>a b. 0 \<le> lc a b \<longrightarrow> lc b a \<le> 0)"
    unfolding getContent_imports sort'_parts
  proof (rule sorted_sort')
    show "lc a b \<le> 0 \<Longrightarrow> lc b c \<le> 0 \<Longrightarrow> lc a c \<le> 0" for a b c
      using consistent by blast
    show "0 \<le> lc a b \<Longrightarrow> lc b a \<le> 0" for a b
      using consistent by blast
    show "\<forall>t \<in> set (filter ?plain (importList f)). ?plain t"
      by simp
  qed
  have blank: "fst (getContent lc d g eol f) = join eol ([] # declarationList f)" if "?lines = []"
    unfolding assembled that by simp
  from assembled terminated parts arrival counts ordered blank show ?thesis
    by (intro conjI impI)
qed

theorem getContent_assembly_witness:
  "fst (getContent codeUnitCompare ''default'' ''*'' [CHR 0x0A] unsortedFile) =
     ''import { map } from '' @ [CHR 0x22] @ ''lodash'' @ [CHR 0x22] @ '';'' @ [CHR 0x0A]
     @ ''import React from '' @ [CHR 0x22] @ ''react'' @ [CHR 0x22] @ '';'' @ [CHR 0x0A]
     @ ''import utils from '' @ [CHR 0x22] @ ''./utils'' @ [CHR 0x22] @ '';'' @ [CHR 0x0A]
     @ ''import * as shared from '' @ [CHR 0x22] @ ''../shared'' @ [CHR 0x22] @ '';'' @ [CHR 0x0A] \<and>
   sorted_wrt (\<lambda>a b. codeUnitCompare (packageName a) (packageName b) \<le> 0)
     (filter (\<lambda>t. \<not> isRelative (packageName t))
        (importList (snd (getContent codeUnitCompare ''default'' ''*'' [CHR 0x0A] unsortedFile)))) \<and>
   fst (getContent codeUnitCompare ''default'' ''*'' [CHR 0x0A] exampleFile) =
     ''import React, { useState } from '' @ [CHR 0x22] @ ''react'' @ [CHR 0x22] @ '';''
       @ [CHR 0x0A] @ [CHR 0x0A] @ ''const x = 1;'' \<and>
   filter (\<lambda>line. line \<noteq> [])
     (map (toString ''default'' ''*'')
        (importList (snd (getContent codeUnitCompare ''default'' ''*'' [CHR 0x0A] emptiedFile)))) = [] \<and>
   fst (getContent codeUnitCompare ''default'' ''*'' [CHR 0x0A] emptiedFile) = [CHR 0x0A] @ ''const x = 1;''"
proof -
  note unsorted = getContent_assembly [of codeUnitCompare "''default''" "''*''" "[CHR 0x0A]" unsortedFile]
  note example = getContent_assembly [of codeUnitCompare "''default''" "''*''" "[CHR 0x0A]" exampleFile]
  note emptied = getContent_assembly [of codeUnitCompare "''default''" "''*''" "[CHR 0x0A]" emptiedFile]
  have consistent:
    "(\<forall>a b c. codeUnitCompare a b \<le> 0 \<and> codeUnitCompare b c \<le> 0 \<longrightarrow> codeUnitCompare a c \<le> 0) \<and>
     (\<forall>a b. 0 \<le> codeUnitCompare a b \<longrightarrow> codeUnitCompare b a \<le> 0)"
    using codeUnitCompare_trans codeUnitCompare_total by blast
  have four: "filter (\<lambda>line. line \<noteq> [])
     (map (toString ''default'' ''*'')
        (importList (snd (getContent codeUnitCompare ''default'' ''*'' [CHR 0x0A] unsortedFile)))) =
     [''import { map } from '' @ [CHR 0x22] @ ''lodash'' @ [CHR 0x22] @ '';'',
      ''import React from '' @ [CHR 0x22] @ ''react'' @ [CHR 0x22] @ '';'',
      ''import utils from '' @ [CHR 0x22] @ ''./utils'' @ [CHR 0x22] @ '';'',
      ''import * as shared from '' @ [CHR 0x22] @ ''../shared'' @ [CHR 0x22] @ '';'']"
    unfolding getContent_imports
    by (simp add: unsortedFile_def importList_def sort'_def compareImports_def isRelative_def toString_def)
  have one: "filter (\<lambda>line. line \<noteq> [])
     (map (toString ''default'' ''*'')
        (importList (snd (getContent codeUnitCompare ''default'' ''*'' [CHR 0x0A] exampleFile)))) =
     [''import React, { useState } from '' @ [CHR 0x22] @ ''react'' @ [CHR 0x22] @ '';'']"
    unfolding getContent_imports
    by (simp add: exampleFile_def reactImport_def importList_def sort'_def toString_def)
  have none: "filter (\<lambda>line. line \<noteq> [])
     (map (toString ''default'' ''*'')
        (importList (snd (getContent codeUnitCompare ''default'' ''*'' [CHR 0x0A] emptiedFile)))) = []"
    unfolding getContent_imports
    by (simp add: emptiedFile_def importList_def sort'_def toString_def)
  have unsorted_text: "fst (getContent codeUnitCompare ''default'' ''*'' [CHR 0x0A] unsortedFile) =
     ''import { map } from '' @ [CHR 0x22] @ ''lodash'' @ [CHR 0x22] @ '';'' @ [CHR 0x0A]
     @ ''import React from '' @ [CHR 0x22] @ ''react'' @ [CHR 0x22] @ '';'' @ [CHR 0x0A]
     @ ''import utils from '' @ [CHR 0x22] @ ''./utils'' @ [CHR 0x22] @ '';'' @ [CHR 0x0A]
     @ ''import * as shared from '' @ [CHR 0x22] @ ''../shared'' @ [CHR 0x22] @ '';'' @ [CHR 0x0A]"
    unfolding conjunct1 [OF unsorted] four
    by (simp add: declarationList_def unsortedFile_def)
  have example_text: "fst (getContent codeUnitCompare ''default'' ''*'' [CHR 0x0A] exampleFile) =
     ''import React, { useState } from '' @ [CHR 0x22] @ ''react'' @ [CHR 0x22] @ '';''
       @ [CHR 0x0A] @ [CHR 0x0A] @ ''const x = 1;''"
    unfolding conjunct1 [OF example] one
    by (simp add: declarationList_def exampleFile_def)
  have "filter (\<lambda>line. line \<noteq> [])
     (map (toString ''default'' ''*'')
        (importList (snd (getContent codeUnitCompare ''default'' ''*'' [CHR 0x0A] emptiedFile)))) = [] \<longrightarrow>
     fst (getContent codeUnitCompare ''default'' ''*'' [CHR 0x0A] emptiedFile) =
       join [CHR 0x0A] ([] # declarationList emptiedFile)"
    by (rule conjunct2 [OF conjunct2 [OF conjunct2 [OF conjunct2 [OF conjunct2 [OF conjunct2 [OF emptied]]]]]])
  with none have "fst (getContent codeUnitCompare ''default'' ''*'' [CHR 0x0A] emptiedFile) =
       join [CHR 0x0A] ([] # declarationList emptiedFile)"
    by simp
  then have emptied_text:
    "fst (getContent codeUnitCompare ''default'' ''*'' [CHR 0x0A] emptiedFile) = [CHR 0x0A] @ ''const x = 1;''"
    by (simp add: declarationList_def emptiedFile_def)
  have "(\<forall>a b c. codeUnitCompare a b \<le> 0 \<and> codeUnitCompare b c \<le> 0 \<longrightarrow> codeUnitCompare a c \<le> 0) \<and>
     (\<forall>a b. 0 \<le> codeUnitCompare a b \<longrightarrow> codeUnitCompare b a \<le> 0) \<longrightarrow>
     sorted_wrt (\<lambda>a b. codeUnitCompare (packageName a) (packageName b) \<le> 0)
      (filter (\<lambda>t. \<not> isRelative (packageName t))
        (importList (snd (getContent codeUnitCompare ''default'' ''*'' [CHR 0x0A] unsortedFile))))"
    by (rule conjunct1 [OF conjunct2 [OF conjunct2 [OF conjunct2 [OF conjunct2 [OF conjunct2 [OF unsorted]]]]]])
  from this consistent have ordered:
    "sorted_wrt (\<lambda>a b. codeUnitCompare (packageName a) (packageName b) \<le> 0)
      (filter (\<lambda>t. \<not> isRelative (packageName t))
        (importList (snd (getContent codeUnitCompare ''default'' ''*'' [CHR 0x0A] unsortedFile))))"
    by (rule mp)
  from unsorted_text ordered example_text none emptied_text show ?thesis
    by (intro conjI)
qed

end
